theory Spec2Isabelle
  imports Complex_Main
begin

section \<open>The scripted simulation (BspAkaltaraSimulation.tsx)\<close>

text \<open>
  A JavaScript \<open>number\<close> is modelled as a \<^typ>\<open>real\<close>: the arithmetic of the source is
  transcribed operator by operator, and rounding of IEEE doubles is left out. A \<open>TrainId\<close>
  is a string at run time, so the model takes any string and keeps the final fallback
  \<open>return 0\<close> of the source.
\<close>

type_synonym TrainId = string

record TrainSimState =
  id' :: TrainId
  name :: string
  colorClass :: string
  trackIndex :: nat

definition TOTAL_DISTANCE :: real where
  "TOTAL_DISTANCE = 65"

definition trainsConfig :: "TrainSimState list" where
  "trainsConfig =
    [\<lparr>id' = ''MEMU_LOCAL'', name = ''MEMU Local (On Time)'',
      colorClass = ''bg-emerald-400'', trackIndex = 0\<rparr>,
     \<lparr>id' = ''RAJDHANI'', name = ''Rajdhani Express (+15m)'',
      colorClass = ''bg-yellow-400'', trackIndex = 1\<rparr>,
     \<lparr>id' = ''JANSHATABDI'', name = ''Janshatabdi (+30m)'',
      colorClass = ''bg-red-400'', trackIndex = 1\<rparr>,
     \<lparr>id' = ''UTKAL_EXP'', name = ''Utkal Express (+15m)'',
      colorClass = ''bg-sky-400'', trackIndex = 2\<rparr>]"

text \<open>\<open>clamp(v, min, max) = Math.max(min, Math.min(max, v))\<close>\<close>

definition clamp :: "real \<Rightarrow> real \<Rightarrow> real \<Rightarrow> real" where
  "clamp v mn mx = max mn (min mx v)"

text \<open>
  \<open>getPositionKm(trainId, tMin)\<close>: position in km from BSP at simulation minute
  \<open>tMin\<close>; the branches and their order are those of the source.
\<close>

definition getPositionKm :: "TrainId \<Rightarrow> real \<Rightarrow> real" where
  "getPositionKm trainId tMin =
    (if trainId = ''MEMU_LOCAL'' then
       (if tMin < 10 then 0
        else if tMin < 50 then (let dt = tMin - 10 in clamp dt 0 40)
        else if tMin < 60 then 40
        else if tMin \<le> 85 then (let dt = tMin - 60 in clamp (40 + (dt * 25) / 25) 40 65)
        else 65)
     else if trainId = ''RAJDHANI'' then
       (if tMin < 25 then 0
        else if tMin < 30 then 0
        else if tMin < 50 then (let dt = tMin - 30 in clamp ((dt * 40) / 20) 0 40)
        else if tMin \<le> 70 then (let dt = tMin - 50 in clamp (40 + (dt * 25) / 20) 40 65)
        else 65)
     else if trainId = ''JANSHATABDI'' then
       (if tMin < 50 then 65
        else if tMin < 60 then 65
        else if tMin < 95 then (let dt = tMin - 60 in clamp (65 - (dt * 25) / 35) 40 65)
        else if tMin < 105 then 40
        else if tMin \<le> 135 then (let dt = tMin - 105 in clamp (40 - (dt * 40) / 30) 0 40)
        else 0)
     else if trainId = ''UTKAL_EXP'' then
       (if tMin < 60 then 65
        else if tMin < 65 then 65
        else if tMin < 95 then (let dt = tMin - 65 in clamp (65 - (dt * 25) / 30) 40 65)
        else if tMin \<le> 125 then (let dt = tMin - 95 in clamp (40 - (dt * 40) / 30) 0 40)
        else 0)
     else 0)"

text \<open>
  The updater that the 200 ms interval passes to \<open>setSimTime\<close> while the simulation
  is playing, for the current \<open>speed\<close>: \<open>next = prev + speed * 0.2\<close>, back to 0
  when \<open>next > 150\<close>.
\<close>

definition simTimeTick :: "real \<Rightarrow> real \<Rightarrow> real" where
  "simTimeTick speed prev = (let next = prev + speed * 0.2 in if next > 150 then 0 else next)"

subsection \<open>The timetable behind the branches\<close>

text \<open>
  The source has no segment table: each train's timetable is written as a chain of
  \<open>if (tMin < e)\<close> tests. \<open>schedule\<close> lists, per train, the intervals between
  consecutive thresholds of its chain together with the progress at both ends, as the
  comments above each chain give them. A row whose two ends agree is a hold; the others
  are linear runs. Before the first row and after the last one the chain returns a fixed
  value. The chain tests the end of a train's last run with \<open><=\<close>, so that run
  includes its end time; the value there is the fixed value that follows.
\<close>

datatype rule = Held real | Linear real real

datatype segment = Segment (seg_start: real) (seg_end: real) (seg_rule: rule)

fun startProgress :: "rule \<Rightarrow> real" where
  "startProgress (Held p) = p"
| "startProgress (Linear p q) = p"

fun endProgress :: "rule \<Rightarrow> real" where
  "endProgress (Held p) = p"
| "endProgress (Linear p q) = q"

fun is_linear :: "rule \<Rightarrow> bool" where
  "is_linear (Held p) = False"
| "is_linear (Linear p q) = True"

definition schedule :: "TrainId \<Rightarrow> segment list" where
  "schedule trainId =
    (if trainId = ''MEMU_LOCAL'' then
       [Segment 0 10 (Held 0), Segment 10 50 (Linear 0 40),
        Segment 50 60 (Held 40), Segment 60 85 (Linear 40 65)]
     else if trainId = ''RAJDHANI'' then
       [Segment 25 30 (Held 0), Segment 30 50 (Linear 0 40), Segment 50 70 (Linear 40 65)]
     else if trainId = ''JANSHATABDI'' then
       [Segment 50 60 (Held 65), Segment 60 95 (Linear 65 40),
        Segment 95 105 (Held 40), Segment 105 135 (Linear 40 0)]
     else if trainId = ''UTKAL_EXP'' then
       [Segment 60 65 (Held 65), Segment 65 95 (Linear 65 40), Segment 95 125 (Linear 40 0)]
     else [])"

text \<open>
  The evaluation rule in the words of the specification (section 4.2): a hold returns its
  progress; a linear run returns \<open>startProgress + (t - start) * rate\<close> with
  \<open>rate = (endProgress - startProgress) / (end - start)\<close>, clamped between the two ends;
  before the first segment and after the last one the boundary progress is returned. The
  segment is found by a linear scan over half-open intervals.
\<close>

fun spec_applyRule :: "segment \<Rightarrow> real \<Rightarrow> real" where
  "spec_applyRule (Segment s e (Held p)) t = p"
| "spec_applyRule (Segment s e (Linear p q)) t =
     clamp (p + (t - s) * ((q - p) / (e - s))) (min p q) (max p q)"

fun spec_locate :: "segment list \<Rightarrow> real \<Rightarrow> segment option" where
  "spec_locate [] t = None"
| "spec_locate (sg # rest) t =
     (if seg_start sg \<le> t \<and> t < seg_end sg then Some sg else spec_locate rest t)"

definition spec_evaluate :: "segment list \<Rightarrow> real \<Rightarrow> real" where
  "spec_evaluate segs t =
    (case segs of
       [] \<Rightarrow> 0
     | first # _ \<Rightarrow>
         if t < seg_start first then startProgress (seg_rule first)
         else (case spec_locate segs t of
                 Some sg \<Rightarrow> spec_applyRule sg t
               | None \<Rightarrow> endProgress (seg_rule (last segs))))"

text \<open>Consecutive rows share their boundary time, and their boundary progress.\<close>

fun contiguous :: "segment list \<Rightarrow> bool" where
  "contiguous (a # b # rest) = (seg_end a = seg_start b \<and> contiguous (b # rest))"
| "contiguous _ = True"

fun progressJoined :: "segment list \<Rightarrow> bool" where
  "progressJoined (a # b # rest) =
     (endProgress (seg_rule a) = startProgress (seg_rule b) \<and> progressJoined (b # rest))"
| "progressJoined _ = True"

text \<open>Every boundary time of a timetable: where each row starts, and where the last ends.\<close>

definition boundaries :: "segment list \<Rightarrow> real list" where
  "boundaries segs = (case segs of [] \<Rightarrow> [] | _ \<Rightarrow> map seg_start segs @ [seg_end (last segs)])"

section \<open>The map overlay (MapComponent.tsx)\<close>

text \<open>Values of feature properties, and the fragment of style expressions the component uses.\<close>

datatype val = VNull | VNum real | VStr string | VBool bool

datatype expr =
    ENum real
  | EStr string
  | EGet string
  | EEq expr expr
  | ECase expr expr expr
  | EMatch expr "(val \<times> val) list" val

text \<open>
  The meaning of a style expression on the properties of one feature, as the rendering
  library defines it: \<open>['get', k]\<close> reads property \<open>k\<close> (null when absent),
  \<open>['==', a, b]\<close> compares two values, \<open>['case', c, a, b]\<close> is \<open>a\<close> when
  \<open>c\<close> is true and the fallback \<open>b\<close> otherwise, and
  \<open>['match', e, l1, o1, ..., d]\<close> is the output paired with the label equal to \<open>e\<close>,
  or the default \<open>d\<close>.
\<close>

fun evalExpr :: "(string \<rightharpoonup> val) \<Rightarrow> expr \<Rightarrow> val" where
  "evalExpr ps (ENum r) = VNum r"
| "evalExpr ps (EStr s) = VStr s"
| "evalExpr ps (EGet k) = (case ps k of None \<Rightarrow> VNull | Some v \<Rightarrow> v)"
| "evalExpr ps (EEq a b) = VBool (evalExpr ps a = evalExpr ps b)"
| "evalExpr ps (ECase c a b) = (if evalExpr ps c = VBool True then evalExpr ps a else evalExpr ps b)"
| "evalExpr ps (EMatch e cases d) = (case map_of cases (evalExpr ps e) of None \<Rightarrow> d | Some v \<Rightarrow> v)"

text \<open>
  Modelled from the spec: the interface \<open>TrainData\<close> is declared in \<open>../types/types\<close>,
  which is not among the sources. The record has the fields the component reads
  (\<open>train_no\<close>, \<open>train_name\<close>, \<open>current_lat\<close>, \<open>current_lon\<close>) and those its
  layers read through \<open>'get'\<close> (\<open>status\<close>, \<open>priority\<close>); section 6 of the
  specification lists identity, coordinates, priority, held state and label. A coordinate
  that is missing (\<open>undefined\<close> or \<open>null\<close>) is \<open>None\<close>.
\<close>

record TrainData =
  train_no :: string
  train_name :: string
  current_lat :: "real option"
  current_lon :: "real option"
  status :: string
  priority :: string

text \<open>
  A GeoJSON point feature: \<open>geometry.coordinates\<close> and \<open>properties\<close>
  (\<open>type: 'Feature'\<close> and \<open>geometry.type: 'Point'\<close> are the same for all).
\<close>

record feature =
  coordinates :: "real option \<times> real option"
  properties :: "string \<rightharpoonup> val"

text \<open>JavaScript truthiness of an optional number: missing and 0 are falsy.\<close>

definition truthy :: "real option \<Rightarrow> bool" where
  "truthy x = (case x of None \<Rightarrow> False | Some v \<Rightarrow> v \<noteq> 0)"

text \<open>The object spread \<open>{...t}\<close>: one property per field that is present.\<close>

definition spread :: "TrainData \<Rightarrow> (string \<rightharpoonup> val)" where
  "spread t =
    (Map.empty(''train_no'' \<mapsto> VStr (train_no t), ''train_name'' \<mapsto> VStr (train_name t),
       ''status'' \<mapsto> VStr (status t), ''priority'' \<mapsto> VStr (priority t)))
      (''current_lat'' := map_option VNum (current_lat t),
       ''current_lon'' := map_option VNum (current_lon t))"

definition toFeature :: "TrainData \<Rightarrow> feature" where
  "toFeature t =
    \<lparr>coordinates = (current_lon t, current_lat t),
     properties = (spread t)(''train_label'' \<mapsto> VStr (train_no t @ '' '' @ train_name t))\<rparr>"

text \<open>
  Valid spatial coordinates, in the words of the specification, read geographically: both
  are present, the latitude lies within [-90, 90] and the longitude within [-180, 180].
  The source has no such test; the predicate only states the claim that is compared
  with the code.
\<close>

definition spec_validCoordinates :: "TrainData \<Rightarrow> bool" where
  "spec_validCoordinates t =
    (case (current_lat t, current_lon t) of
       (Some lat, Some lon) \<Rightarrow> - 90 \<le> lat \<and> lat \<le> 90 \<and> - 180 \<le> lon \<and> lon \<le> 180
     | _ \<Rightarrow> False)"

text \<open>\<open>trains.filter((t) => t.current_lat && t.current_lon).map(...)\<close>\<close>

definition trainFeatures :: "TrainData list \<Rightarrow> feature list" where
  "trainFeatures trains =
    map toFeature (filter (\<lambda>t. truthy (current_lat t) \<and> truthy (current_lon t)) trains)"

text \<open>
  The part of the map the component touches: the paint properties of each layer and the
  feature collection of each GeoJSON source.
\<close>

record map_state =
  layers :: "string \<rightharpoonup> (string \<rightharpoonup> expr)"
  sources :: "string \<rightharpoonup> feature list"

definition getPaintProperty :: "map_state \<Rightarrow> string \<Rightarrow> string \<Rightarrow> expr option" where
  "getPaintProperty m layer prop =
    (case layers m layer of None \<Rightarrow> None | Some paint \<Rightarrow> paint prop)"

definition setPaintProperty :: "map_state \<Rightarrow> string \<Rightarrow> string \<Rightarrow> expr \<Rightarrow> map_state" where
  "setPaintProperty m layer prop v =
    (case layers m layer of
       None \<Rightarrow> m
     | Some paint \<Rightarrow> m\<lparr>layers := (layers m)(layer \<mapsto> paint(prop \<mapsto> v))\<rparr>)"

definition setData :: "map_state \<Rightarrow> string \<Rightarrow> feature list \<Rightarrow> map_state" where
  "setData m source fs = m\<lparr>sources := (sources m)(source \<mapsto> fs)\<rparr>"

text \<open>
  Effect 1: a new map has no sources and no layers; its \<open>load\<close> handler adds the two
  sources, empty, and the three layers with their paint properties. The two priority
  labels of \<open>circle-color\<close> end in a coloured-circle emoji, written here as its four
  UTF-8 bytes.
\<close>

definition newMap :: map_state where
  "newMap = \<lparr>layers = Map.empty, sources = Map.empty\<rparr>"

definition onLoad :: "map_state \<Rightarrow> map_state" where
  "onLoad m =
    m\<lparr>sources := (sources m)(''tracks-source'' \<mapsto> [], ''trains-source'' \<mapsto> []),
      layers := (layers m)
        (''tracks-layer'' \<mapsto>
           Map.empty(''line-width'' \<mapsto> ENum 4,
             ''line-color'' \<mapsto>
               EMatch (EGet ''track'')
                 [(VNum 1, VStr ''#4F46E5''), (VNum 2, VStr ''#F97316''),
                  (VNum 3, VStr ''#10B981'')]
                 (VStr ''#666666'')),
         ''trains-layer'' \<mapsto>
           Map.empty(''circle-radius'' \<mapsto> ENum 8,
             ''circle-stroke-width'' \<mapsto> ENum 2,
             ''circle-stroke-color'' \<mapsto> EStr ''#ffffff'',
             ''circle-color'' \<mapsto>
               EMatch (EGet ''priority'')
                 [(VStr (''High ('' @ [CHR 0xF0, CHR 0x9F, CHR 0x9F, CHR 0xA2] @ '')''),
                   VStr ''#34D399''),
                  (VStr (''Medium ('' @ [CHR 0xF0, CHR 0x9F, CHR 0x9F, CHR 0xA1] @ '')''),
                   VStr ''#FBBF24'')]
                 (VStr ''#EF4444''),
             ''circle-opacity'' \<mapsto> ENum 1),
         ''trains-labels'' \<mapsto>
           Map.empty(''text-color'' \<mapsto> EStr ''#FFFFFF'',
             ''text-halo-color'' \<mapsto> EStr ''#000000'',
             ''text-halo-width'' \<mapsto> ENum 1))\<rparr>"

text \<open>
  Effect 2, run when \<open>trains\<close> changes: nothing without a map or without the source
  (a throwing \<open>getSource\<close> is caught and returns as well), else the source's collection
  is replaced.
\<close>

definition updateTrains :: "map_state option \<Rightarrow> TrainData list \<Rightarrow> map_state option" where
  "updateTrains mapRef trains =
    (case mapRef of
       None \<Rightarrow> None
     | Some m \<Rightarrow>
         (case sources m ''trains-source'' of
            None \<Rightarrow> Some m
          | Some _ \<Rightarrow> Some (setData m ''trains-source'' (trainFeatures trains))))"

text \<open>
  Effect 3: the closure variable \<open>visible\<close> and the map reference, and one run of the
  500 ms interval callback.
\<close>

record blink_state =
  visible :: bool
  mapRef :: "map_state option"

definition blinkStart :: "map_state option \<Rightarrow> blink_state" where
  "blinkStart r = \<lparr>visible = True, mapRef = r\<rparr>"

definition opacityExpr :: "bool \<Rightarrow> expr" where
  "opacityExpr vis =
    ECase (EEq (EGet ''status'') (EStr ''Held'')) (ENum (if vis then 1 else 0.2)) (ENum 1)"

definition blinkTick :: "blink_state \<Rightarrow> blink_state" where
  "blinkTick s =
    (case mapRef s of
       None \<Rightarrow> s
     | Some m \<Rightarrow>
         if layers m ''trains-layer'' = None then s
         else \<lparr>visible = \<not> visible s,
               mapRef = Some (setPaintProperty m ''trains-layer'' ''circle-opacity''
                                (opacityExpr (visible s)))\<rparr>)"

text \<open>The opacity with which the circle of feature \<open>f\<close> is drawn, if the layer has one.\<close>

definition circleOpacity :: "map_state \<Rightarrow> feature \<Rightarrow> val option" where
  "circleOpacity m f =
    map_option (evalExpr (properties f)) (getPaintProperty m ''trains-layer'' ''circle-opacity'')"

text \<open>
  An interval timer of period \<open>c > 0\<close> milliseconds, taken as exact: after
  \<open>elapsed\<close> milliseconds its callback has run \<open>elapsed div c\<close> times. The traces
  list what is seen at the start and after each run.
\<close>

definition firings :: "nat \<Rightarrow> nat \<Rightarrow> nat" where
  "firings c elapsed = elapsed div c"

definition blinkStates :: "nat \<Rightarrow> nat \<Rightarrow> blink_state \<Rightarrow> blink_state list" where
  "blinkStates c elapsed s = map (\<lambda>k. (blinkTick ^^ k) s) [0..<Suc (firings c elapsed)]"

definition opacityTrace :: "nat \<Rightarrow> nat \<Rightarrow> blink_state \<Rightarrow> feature \<Rightarrow> val option list" where
  "opacityTrace c elapsed s f =
    map (\<lambda>st. case mapRef st of None \<Rightarrow> None | Some m \<Rightarrow> circleOpacity m f)
      (blinkStates c elapsed s)"

definition visibleTrace :: "nat \<Rightarrow> nat \<Rightarrow> blink_state \<Rightarrow> bool list" where
  "visibleTrace c elapsed s = map visible (blinkStates c elapsed s)"

text \<open>How often consecutive entries of a trace differ.\<close>

fun toggles :: "'a list \<Rightarrow> nat" where
  "toggles (a # b # rest) = (if a = b then 0 else 1) + toggles (b # rest)"
| "toggles _ = 0"

subsection \<open>Sample data\<close>

text \<open>
  Trains of a live snapshot: one held, one running, one without a latitude, one reported
  at latitude 0, and one reported at latitude 1000.
\<close>

definition heldTrain :: TrainData where
  "heldTrain =
    \<lparr>train_no = ''18237'', train_name = ''Chhattisgarh Express'',
     current_lat = Some 22.07, current_lon = Some 82.15,
     status = ''Held'', priority = ''Low''\<rparr>"

definition runningTrain :: TrainData where
  "runningTrain =
    \<lparr>train_no = ''12441'', train_name = ''Rajdhani Express'',
     current_lat = Some 21.9, current_lon = Some 82.4,
     status = ''Running'', priority = ''Medium''\<rparr>"

definition lostTrain :: TrainData where
  "lostTrain =
    \<lparr>train_no = ''68719'', train_name = ''MEMU Local'',
     current_lat = None, current_lon = Some 82.2,
     status = ''Running'', priority = ''Low''\<rparr>"

definition zeroTrain :: TrainData where
  "zeroTrain =
    \<lparr>train_no = ''58201'', train_name = ''Passenger'',
     current_lat = Some 0, current_lon = Some 82.2,
     status = ''Running'', priority = ''Low''\<rparr>"

definition strayTrain :: TrainData where
  "strayTrain =
    \<lparr>train_no = ''12070'', train_name = ''Janshatabdi'',
     current_lat = Some 1000, current_lon = Some 82.2,
     status = ''Running'', priority = ''Low''\<rparr>"

section \<open>The position function, branch by branch\<close>

text \<open>Inside each branch the clamp does nothing, which leaves these closed forms.\<close>

lemma memu_closed:
  "getPositionKm ''MEMU_LOCAL'' t =
    (if t < 10 then 0 else if t < 50 then t - 10 else if t < 60 then 40
     else if t \<le> 85 then t - 20 else 65)"
  by (simp add: getPositionKm_def clamp_def)

lemma rajdhani_closed:
  "getPositionKm ''RAJDHANI'' t =
    (if t < 30 then 0 else if t < 50 then 2 * t - 60
     else if t \<le> 70 then 40 + 5 * (t - 50) / 4 else 65)"
  by (simp add: getPositionKm_def clamp_def)

lemma janshatabdi_closed:
  "getPositionKm ''JANSHATABDI'' t =
    (if t < 60 then 65 else if t < 95 then 65 - 5 * (t - 60) / 7
     else if t < 105 then 40 else if t \<le> 135 then 40 - 4 * (t - 105) / 3 else 0)"
  by (simp add: getPositionKm_def clamp_def)

lemma utkal_closed:
  "getPositionKm ''UTKAL_EXP'' t =
    (if t < 65 then 65 else if t < 95 then 65 - 5 * (t - 65) / 6
     else if t \<le> 125 then 40 - 4 * (t - 95) / 3 else 0)"
  by (simp add: getPositionKm_def clamp_def)

lemma other_closed:
  "trainId \<noteq> ''MEMU_LOCAL'' \<Longrightarrow> trainId \<noteq> ''RAJDHANI'' \<Longrightarrow> trainId \<noteq> ''JANSHATABDI'' \<Longrightarrow>
   trainId \<noteq> ''UTKAL_EXP'' \<Longrightarrow> getPositionKm trainId t = 0"
  by (simp add: getPositionKm_def)

lemmas closed_forms = memu_closed rajdhani_closed janshatabdi_closed utkal_closed

lemma known_or_other:
  "trainId = ''MEMU_LOCAL'' \<or> trainId = ''RAJDHANI'' \<or> trainId = ''JANSHATABDI'' \<or>
   trainId = ''UTKAL_EXP'' \<or> getPositionKm trainId = (\<lambda>t. 0)"
  by (auto simp: other_closed)

lemma config_ids:
  "map id' trainsConfig = [''MEMU_LOCAL'', ''RAJDHANI'', ''JANSHATABDI'', ''UTKAL_EXP'']"
  by (simp add: trainsConfig_def)

lemma range_MEMU: "0 \<le> getPositionKm ''MEMU_LOCAL'' t \<and> getPositionKm ''MEMU_LOCAL'' t \<le> 65"
  by (simp add: memu_closed)

lemma range_RAJDHANI: "0 \<le> getPositionKm ''RAJDHANI'' t \<and> getPositionKm ''RAJDHANI'' t \<le> 65"
  by (simp add: rajdhani_closed)

lemma range_JANSHATABDI:
  "0 \<le> getPositionKm ''JANSHATABDI'' t \<and> getPositionKm ''JANSHATABDI'' t \<le> 65"
  by (simp add: janshatabdi_closed field_simps)

lemma range_UTKAL: "0 \<le> getPositionKm ''UTKAL_EXP'' t \<and> getPositionKm ''UTKAL_EXP'' t \<le> 65"
  by (simp add: utkal_closed field_simps)

subsection \<open>The timetable is the one the code follows\<close>

lemma schedule_MEMU:
  "schedule ''MEMU_LOCAL'' =
    [Segment 0 10 (Held 0), Segment 10 50 (Linear 0 40),
     Segment 50 60 (Held 40), Segment 60 85 (Linear 40 65)]"
  by (simp add: schedule_def)

lemma schedule_RAJDHANI:
  "schedule ''RAJDHANI'' =
    [Segment 25 30 (Held 0), Segment 30 50 (Linear 0 40), Segment 50 70 (Linear 40 65)]"
  by (simp add: schedule_def)

lemma schedule_JANSHATABDI:
  "schedule ''JANSHATABDI'' =
    [Segment 50 60 (Held 65), Segment 60 95 (Linear 65 40),
     Segment 95 105 (Held 40), Segment 105 135 (Linear 40 0)]"
  by (simp add: schedule_def)

lemma schedule_UTKAL:
  "schedule ''UTKAL_EXP'' =
    [Segment 60 65 (Held 65), Segment 65 95 (Linear 65 40), Segment 95 125 (Linear 40 0)]"
  by (simp add: schedule_def)

lemmas schedules = schedule_MEMU schedule_RAJDHANI schedule_JANSHATABDI schedule_UTKAL

text \<open>
  Evaluating the timetable by the rule of the specification gives, at every time, the
  value the code computes: the rows of \<open>schedule\<close> are the segments of the code.
\<close>

lemma refine_MEMU: "getPositionKm ''MEMU_LOCAL'' t = spec_evaluate (schedule ''MEMU_LOCAL'') t"
  by (simp add: schedule_MEMU memu_closed spec_evaluate_def clamp_def)

lemma refine_RAJDHANI: "getPositionKm ''RAJDHANI'' t = spec_evaluate (schedule ''RAJDHANI'') t"
  by (simp add: schedule_RAJDHANI rajdhani_closed spec_evaluate_def clamp_def)

lemma refine_JANSHATABDI:
  "getPositionKm ''JANSHATABDI'' t = spec_evaluate (schedule ''JANSHATABDI'') t"
  by (simp add: schedule_JANSHATABDI janshatabdi_closed spec_evaluate_def clamp_def)

lemma refine_UTKAL: "getPositionKm ''UTKAL_EXP'' t = spec_evaluate (schedule ''UTKAL_EXP'') t"
  by (simp add: schedule_UTKAL utkal_closed spec_evaluate_def clamp_def)

lemma getPositionKm_refines_schedule:
  "\<forall>c \<in> set trainsConfig. getPositionKm (id' c) t = spec_evaluate (schedule (id' c)) t"
proof -
  have "\<forall>i \<in> set (map id' trainsConfig). getPositionKm i t = spec_evaluate (schedule i) t"
    unfolding config_ids
    using refine_MEMU refine_RAJDHANI refine_JANSHATABDI refine_UTKAL by simp
  then show ?thesis by simp
qed

subsection \<open>Continuity\<close>

text \<open>
  Each curve is a sum of clamped linear functions of the time, hence continuous
  everywhere.
\<close>

lemma memu_maxmin:
  "getPositionKm ''MEMU_LOCAL'' t = clamp (t - 10) 0 40 + clamp (t - 60) 0 25"
  by (simp add: memu_closed clamp_def)

lemma rajdhani_maxmin:
  "getPositionKm ''RAJDHANI'' t = clamp (2 * t - 60) 0 40 + clamp (5 * (t - 50) / 4) 0 25"
  by (simp add: rajdhani_closed clamp_def)

lemma janshatabdi_maxmin:
  "getPositionKm ''JANSHATABDI'' t =
     65 - clamp (5 * (t - 60) / 7) 0 25 - clamp (4 * (t - 105) / 3) 0 40"
  by (simp add: janshatabdi_closed clamp_def)

lemma utkal_maxmin:
  "getPositionKm ''UTKAL_EXP'' t =
     65 - clamp (5 * (t - 65) / 6) 0 25 - clamp (4 * (t - 95) / 3) 0 40"
  by (simp add: utkal_closed clamp_def)

lemma clamp_isCont: "isCont f t \<Longrightarrow> isCont (\<lambda>x. clamp (f x) a b) t"
  unfolding clamp_def by (intro continuous_intros)

lemma getPositionKm_isCont: "isCont (getPositionKm trainId) t"
proof -
  have m: "getPositionKm ''MEMU_LOCAL'' = (\<lambda>t. clamp (t - 10) 0 40 + clamp (t - 60) 0 25)"
    by (rule ext) (rule memu_maxmin)
  have r: "getPositionKm ''RAJDHANI'' =
      (\<lambda>t. clamp (2 * t - 60) 0 40 + clamp (5 * (t - 50) / 4) 0 25)"
    by (rule ext) (rule rajdhani_maxmin)
  have j: "getPositionKm ''JANSHATABDI'' =
      (\<lambda>t. 65 - clamp (5 * (t - 60) / 7) 0 25 - clamp (4 * (t - 105) / 3) 0 40)"
    by (rule ext) (rule janshatabdi_maxmin)
  have u: "getPositionKm ''UTKAL_EXP'' =
      (\<lambda>t. 65 - clamp (5 * (t - 65) / 6) 0 25 - clamp (4 * (t - 95) / 3) 0 40)"
    by (rule ext) (rule utkal_maxmin)
  from known_or_other [of trainId] show ?thesis
  proof (elim disjE)
    assume "trainId = ''MEMU_LOCAL''"
    then show ?thesis by (simp only: m) (intro continuous_intros clamp_isCont; simp)
  next
    assume "trainId = ''RAJDHANI''"
    then show ?thesis by (simp only: r) (intro continuous_intros clamp_isCont; simp)
  next
    assume "trainId = ''JANSHATABDI''"
    then show ?thesis by (simp only: j) (intro continuous_intros clamp_isCont; simp)
  next
    assume "trainId = ''UTKAL_EXP''"
    then show ?thesis by (simp only: u) (intro continuous_intros clamp_isCont; simp)
  next
    assume "getPositionKm trainId = (\<lambda>t. 0)"
    then show ?thesis by simp
  qed
qed

lemma isCont_sided:
  "isCont f b \<Longrightarrow> (f \<longlongrightarrow> f b) (at_left b) \<and> (f \<longlongrightarrow> f b) (at_right b)"
  for f :: "real \<Rightarrow> real"
  by (simp add: isCont_def filterlim_at_split)

section \<open>Properties of the scripted simulation\<close>

text \<open>
  C1: the MEMU local (held at 0 on [0,10), linear from 0 to 40 on [10,50), held at 40 on
  [50,60)) is at exactly 0 km at minute 0, at exactly 20 km at minute 30 and at exactly
  40 km at minute 55.
\<close>

theorem C1_memu_positions:
  "getPositionKm ''MEMU_LOCAL'' 0 = 0 \<and>
   getPositionKm ''MEMU_LOCAL'' 30 = 20 \<and>
   getPositionKm ''MEMU_LOCAL'' 55 = 40"
  by (simp add: getPositionKm_def clamp_def)

text \<open>
  C2, as amended: the Rajdhani's curve does not cross the MEMU local's before minute 50.
  Between minutes 10 and 50 the Rajdhani is strictly behind; at minute 50 both are at
  40 km; between minutes 50 and 85 the Rajdhani is strictly ahead; and both curves are
  continuous at every time.
\<close>

theorem C2_curves_meet_at_50:
  "(10 < t \<and> t < 50 \<longrightarrow> getPositionKm ''RAJDHANI'' t < getPositionKm ''MEMU_LOCAL'' t) \<and>
   getPositionKm ''RAJDHANI'' 50 = 40 \<and> getPositionKm ''MEMU_LOCAL'' 50 = 40 \<and>
   (50 < t \<and> t < 85 \<longrightarrow> getPositionKm ''MEMU_LOCAL'' t < getPositionKm ''RAJDHANI'' t) \<and>
   isCont (getPositionKm ''RAJDHANI'') t \<and> isCont (getPositionKm ''MEMU_LOCAL'') t"
  by (simp add: memu_closed rajdhani_closed getPositionKm_isCont field_simps)

text \<open>C2, the amended statement at minutes 40 and 55.\<close>

theorem C2_curves_meet_at_50_witness:
  "getPositionKm ''RAJDHANI'' 40 < getPositionKm ''MEMU_LOCAL'' 40 \<and>
   getPositionKm ''MEMU_LOCAL'' 55 < getPositionKm ''RAJDHANI'' 55 \<and>
   getPositionKm ''RAJDHANI'' 50 = 40 \<and> getPositionKm ''MEMU_LOCAL'' 50 = 40"
  using C2_curves_meet_at_50 [of 40] C2_curves_meet_at_50 [of 55] by simp

text \<open>
  C2, as stated, fails: there is no time before minute 50 at which both trains have left
  BSP and are at the same position.
\<close>

theorem C2_no_crossing_before_50:
  "\<not> (\<exists>t. t < 50 \<and> 0 < getPositionKm ''MEMU_LOCAL'' t \<and> 0 < getPositionKm ''RAJDHANI'' t \<and>
        getPositionKm ''RAJDHANI'' t = getPositionKm ''MEMU_LOCAL'' t)"
  by (auto simp add: memu_closed rajdhani_closed split: if_splits)

text \<open>
  C3: from a simulation time between 0 and the horizon of 150 minutes, with a positive
  speed, one tick of the clock gives \<open>prev + speed * 0.2\<close> when that does not exceed
  150 and exactly 0 when it does; the new time is never negative and never above 150.
\<close>

theorem C3_simTimeTick_wraps:
  "0 \<le> prev \<and> prev \<le> 150 \<and> 0 < speed \<longrightarrow>
     (prev + speed * 0.2 \<le> 150 \<longrightarrow> simTimeTick speed prev = prev + speed * 0.2) \<and>
     (prev + speed * 0.2 > 150 \<longrightarrow> simTimeTick speed prev = 0) \<and>
     0 \<le> simTimeTick speed prev \<and> simTimeTick speed prev \<le> 150"
  by (simp add: simTimeTick_def Let_def)

text \<open>C3 at speed 5: from minute 149 the clock reaches 150, from 150 it wraps to 0.\<close>

theorem C3_simTimeTick_wraps_witness:
  "simTimeTick 5 149 = 150 \<and> simTimeTick 5 150 = 0 \<and>
   0 \<le> simTimeTick 5 149 \<and> simTimeTick 5 149 \<le> 150"
  using C3_simTimeTick_wraps [of 149 5] C3_simTimeTick_wraps [of 150 5] by simp

text \<open>
  C4: for each of the four configured trains and every time, the position lies between
  0 and \<open>TOTAL_DISTANCE\<close> = 65; and at a time within a linear segment of the train it
  lies between the smaller and the larger of the segment's two end values.
\<close>

theorem C4_progress_in_range:
  "\<forall>c \<in> set trainsConfig.
     0 \<le> getPositionKm (id' c) t \<and> getPositionKm (id' c) t \<le> TOTAL_DISTANCE \<and>
     (\<forall>sg \<in> set (schedule (id' c)).
        is_linear (seg_rule sg) \<and> seg_start sg \<le> t \<and> t \<le> seg_end sg \<longrightarrow>
          min (startProgress (seg_rule sg)) (endProgress (seg_rule sg))
            \<le> getPositionKm (id' c) t \<and>
          getPositionKm (id' c) t
            \<le> max (startProgress (seg_rule sg)) (endProgress (seg_rule sg)))"
proof -
  have "\<forall>i \<in> set (map id' trainsConfig).
     0 \<le> getPositionKm i t \<and> getPositionKm i t \<le> TOTAL_DISTANCE \<and>
     (\<forall>sg \<in> set (schedule i).
        is_linear (seg_rule sg) \<and> seg_start sg \<le> t \<and> t \<le> seg_end sg \<longrightarrow>
          min (startProgress (seg_rule sg)) (endProgress (seg_rule sg)) \<le> getPositionKm i t \<and>
          getPositionKm i t \<le> max (startProgress (seg_rule sg)) (endProgress (seg_rule sg)))"
    unfolding config_ids
    by (simp add: TOTAL_DISTANCE_def schedules range_MEMU range_RAJDHANI range_JANSHATABDI
          range_UTKAL)
       (simp add: closed_forms field_simps)
  then show ?thesis by simp
qed

text \<open>C4 at minute 70, which lies in a linear segment of each of the four trains.\<close>

theorem C4_progress_in_range_witness:
  "0 \<le> getPositionKm ''MEMU_LOCAL'' 70 \<and> getPositionKm ''MEMU_LOCAL'' 70 \<le> 65 \<and>
   40 \<le> getPositionKm ''MEMU_LOCAL'' 70 \<and>
   40 \<le> getPositionKm ''RAJDHANI'' 70 \<and> getPositionKm ''RAJDHANI'' 70 \<le> 65 \<and>
   40 \<le> getPositionKm ''JANSHATABDI'' 70 \<and> getPositionKm ''JANSHATABDI'' 70 \<le> 65 \<and>
   40 \<le> getPositionKm ''UTKAL_EXP'' 70 \<and> getPositionKm ''UTKAL_EXP'' 70 \<le> 65"
  using C4_progress_in_range [of 70]
  by (simp add: trainsConfig_def schedule_def TOTAL_DISTANCE_def)

text \<open>
  C5: for each of the four trains the segments follow one another without a gap, the
  progress at the end of a segment is the progress at the start of the next, and at every
  boundary time the position approached from the left, and from the right, is the
  position at the boundary.
\<close>

theorem C5_contiguous_continuous:
  "\<forall>c \<in> set trainsConfig.
     contiguous (schedule (id' c)) \<and> progressJoined (schedule (id' c)) \<and>
     (\<forall>b \<in> set (boundaries (schedule (id' c))).
        (getPositionKm (id' c) \<longlongrightarrow> getPositionKm (id' c) b) (at_left b) \<and>
        (getPositionKm (id' c) \<longlongrightarrow> getPositionKm (id' c) b) (at_right b))"
proof
  fix c assume "c \<in> set trainsConfig"
  then have "id' c \<in> set (map id' trainsConfig)" by simp
  then have "contiguous (schedule (id' c)) \<and> progressJoined (schedule (id' c))"
    unfolding config_ids by (auto simp add: schedules)
  then show "contiguous (schedule (id' c)) \<and> progressJoined (schedule (id' c)) \<and>
     (\<forall>b \<in> set (boundaries (schedule (id' c))).
        (getPositionKm (id' c) \<longlongrightarrow> getPositionKm (id' c) b) (at_left b) \<and>
        (getPositionKm (id' c) \<longlongrightarrow> getPositionKm (id' c) b) (at_right b))"
    by (simp add: isCont_sided [OF getPositionKm_isCont])
qed

text \<open>C5 for two of the trains, at the boundaries 50 and 95.\<close>

theorem C5_contiguous_continuous_witness:
  "contiguous (schedule ''MEMU_LOCAL'') \<and> progressJoined (schedule ''JANSHATABDI'') \<and>
   (getPositionKm ''MEMU_LOCAL'' \<longlongrightarrow> getPositionKm ''MEMU_LOCAL'' 50) (at_left 50) \<and>
   (getPositionKm ''UTKAL_EXP'' \<longlongrightarrow> getPositionKm ''UTKAL_EXP'' 95) (at_left 95)"
  using C5_contiguous_continuous by (simp add: trainsConfig_def schedule_def boundaries_def)

text \<open>
  C6: for each of the four trains and two times \<open>t1 < t2\<close> within one of its linear
  segments, the position at \<open>t1\<close> is at most the position at \<open>t2\<close> when the segment
  runs upwards, and at least that position when it runs downwards.
\<close>

theorem C6_monotone_in_segment:
  "\<forall>c \<in> set trainsConfig. \<forall>sg \<in> set (schedule (id' c)).
     is_linear (seg_rule sg) \<and> seg_start sg \<le> t1 \<and> t1 < t2 \<and> t2 \<le> seg_end sg \<longrightarrow>
       (startProgress (seg_rule sg) < endProgress (seg_rule sg) \<longrightarrow>
          getPositionKm (id' c) t1 \<le> getPositionKm (id' c) t2) \<and>
       (endProgress (seg_rule sg) < startProgress (seg_rule sg) \<longrightarrow>
          getPositionKm (id' c) t2 \<le> getPositionKm (id' c) t1)"
proof -
  have "\<forall>i \<in> set (map id' trainsConfig). \<forall>sg \<in> set (schedule i).
     is_linear (seg_rule sg) \<and> seg_start sg \<le> t1 \<and> t1 < t2 \<and> t2 \<le> seg_end sg \<longrightarrow>
       (startProgress (seg_rule sg) < endProgress (seg_rule sg) \<longrightarrow>
          getPositionKm i t1 \<le> getPositionKm i t2) \<and>
       (endProgress (seg_rule sg) < startProgress (seg_rule sg) \<longrightarrow>
          getPositionKm i t2 \<le> getPositionKm i t1)"
    unfolding config_ids by (simp add: schedules) (simp add: closed_forms field_simps)
  then show ?thesis by simp
qed

text \<open>C6 on two upward and two downward segments.\<close>

theorem C6_monotone_in_segment_witness:
  "getPositionKm ''MEMU_LOCAL'' 20 \<le> getPositionKm ''MEMU_LOCAL'' 30 \<and>
   getPositionKm ''RAJDHANI'' 60 \<le> getPositionKm ''RAJDHANI'' 70 \<and>
   getPositionKm ''JANSHATABDI'' 120 \<le> getPositionKm ''JANSHATABDI'' 110 \<and>
   getPositionKm ''UTKAL_EXP'' 80 \<le> getPositionKm ''UTKAL_EXP'' 70"
  using C6_monotone_in_segment [of 20 30] C6_monotone_in_segment [of 60 70]
    C6_monotone_in_segment [of 110 120] C6_monotone_in_segment [of 70 80]
  by (simp add: trainsConfig_def schedule_def)

text \<open>
  C9: for every train id and every time the position function returns a number, which
  lies between 0 and 65; for an id that is none of the four configured ones it returns
  the fallback 0.
\<close>

theorem C9_total_with_fallback:
  "(\<exists>y. getPositionKm trainId t = y \<and> 0 \<le> y \<and> y \<le> TOTAL_DISTANCE) \<and>
   (trainId \<notin> set (map id' trainsConfig) \<longrightarrow> getPositionKm trainId t = 0)"
proof -
  from known_or_other [of trainId]
  have "0 \<le> getPositionKm trainId t \<and> getPositionKm trainId t \<le> 65"
    using range_MEMU range_RAJDHANI range_JANSHATABDI range_UTKAL by (elim disjE) simp_all
  moreover have "trainId \<notin> set (map id' trainsConfig) \<longrightarrow> getPositionKm trainId t = 0"
    unfolding config_ids by (simp add: other_closed)
  ultimately show ?thesis by (simp add: TOTAL_DISTANCE_def)
qed

text \<open>C9 for an unknown id, and for a known one before the start and past the horizon.\<close>

theorem C9_total_with_fallback_witness:
  "''FREIGHT'' \<notin> set (map id' trainsConfig) \<and> getPositionKm ''FREIGHT'' 42 = 0 \<and>
   0 \<le> getPositionKm ''UTKAL_EXP'' (- 5) \<and> getPositionKm ''UTKAL_EXP'' 500 \<le> 65"
  using C9_total_with_fallback [of "''FREIGHT''" 42]
    C9_total_with_fallback [of "''UTKAL_EXP''" "- 5"]
    C9_total_with_fallback [of "''UTKAL_EXP''" 500]
  by (simp add: trainsConfig_def TOTAL_DISTANCE_def)

section \<open>Properties of the map overlay\<close>

lemma trainFeatures_append: "trainFeatures (xs @ ys) = trainFeatures xs @ trainFeatures ys"
  by (simp add: trainFeatures_def)

lemma trainFeatures_Cons_falsy:
  "\<not> (truthy (current_lat t) \<and> truthy (current_lon t)) \<Longrightarrow>
   trainFeatures (t # ys) = trainFeatures ys"
  by (simp add: trainFeatures_def)

lemma truthy_iff: "truthy x \<longleftrightarrow> x \<noteq> None \<and> x \<noteq> Some 0"
  by (cases x) (simp_all add: truthy_def)

lemma loaded_source: "sources (onLoad newMap) ''trains-source'' = Some []"
  by (simp add: onLoad_def newMap_def)

lemma loaded_layer: "layers (onLoad newMap) ''trains-layer'' \<noteq> None"
  by (simp add: onLoad_def newMap_def)

lemma loaded_opacity:
  "getPaintProperty (onLoad newMap) ''trains-layer'' ''circle-opacity'' = Some (ENum 1)"
  by (simp add: getPaintProperty_def onLoad_def newMap_def)

lemma loaded_radius:
  "getPaintProperty (onLoad newMap) ''trains-layer'' ''circle-radius'' = Some (ENum 8)"
  by (simp add: getPaintProperty_def onLoad_def newMap_def)

lemma held_status: "properties (toFeature heldTrain) ''status'' = Some (VStr ''Held'')"
  by (simp add: toFeature_def spread_def heldTrain_def)

lemma running_status: "properties (toFeature runningTrain) ''status'' = Some (VStr ''Running'')"
  by (simp add: toFeature_def spread_def runningTrain_def)

lemma evalExpr_opacityExpr:
  "evalExpr ps (opacityExpr vis) =
     (if ps ''status'' = Some (VStr ''Held'') then VNum (if vis then 1 else 0.2) else VNum 1)"
  by (auto simp add: opacityExpr_def split: option.splits)

lemma blinkTick_ready:
  "layers m ''trains-layer'' = Some paint \<Longrightarrow>
   blinkTick \<lparr>visible = v, mapRef = Some m\<rparr> =
     \<lparr>visible = \<not> v,
      mapRef = Some (m\<lparr>layers := (layers m)(''trains-layer'' \<mapsto>
                 paint(''circle-opacity'' \<mapsto> opacityExpr v))\<rparr>)\<rparr>"
  by (simp add: blinkTick_def setPaintProperty_def)

lemma blinkTick_twice:
  assumes "layers m ''trains-layer'' = Some paint"
  shows "blinkTick (blinkTick \<lparr>visible = v, mapRef = Some m\<rparr>) =
     \<lparr>visible = v,
      mapRef = Some (m\<lparr>layers := (layers m)(''trains-layer'' \<mapsto>
                 paint(''circle-opacity'' \<mapsto> opacityExpr (\<not> v)))\<rparr>)\<rparr>"
  by (simp add: blinkTick_ready [OF assms] blinkTick_ready [where m = "m\<lparr>layers := X\<rparr>" for X])

lemma firings_two: "0 < c \<Longrightarrow> firings c (2 * c) = 2"
  by (simp add: firings_def)

lemma upt_3: "[0..<Suc 2] = [0, 1, 2]"
  by (simp add: upt_rec)

lemma blinkStates_two:
  assumes "0 < c" "layers m ''trains-layer'' = Some paint"
  shows "blinkStates c (2 * c) (blinkStart (Some m)) =
    [\<lparr>visible = True, mapRef = Some m\<rparr>,
     \<lparr>visible = False,
      mapRef = Some (m\<lparr>layers := (layers m)(''trains-layer'' \<mapsto>
                 paint(''circle-opacity'' \<mapsto> opacityExpr True))\<rparr>)\<rparr>,
     \<lparr>visible = True,
      mapRef = Some (m\<lparr>layers := (layers m)(''trains-layer'' \<mapsto>
                 paint(''circle-opacity'' \<mapsto> opacityExpr False))\<rparr>)\<rparr>]"
  using blinkTick_ready [OF assms(2), of True] blinkTick_twice [OF assms(2), of True]
  by (simp only: blinkStates_def blinkStart_def firings_two [OF assms(1)] upt_3)
     (simp add: numeral_2_eq_2)

text \<open>
  C7, as amended: with a cadence \<open>c\<close>, the train layer present and drawn at opacity 1
  when the timer starts, after \<open>2c\<close> the flag \<open>visible\<close> has gone true, false, true
  (two toggles), while the opacity drawn for a held train has gone 1, 1, 0.2: the first
  run of the callback installs full opacity again and only the second one dims.
\<close>

theorem C7_blink_two_periods:
  "0 < c \<and> getPaintProperty m ''trains-layer'' ''circle-opacity'' = Some (ENum 1) \<and>
   properties f ''status'' = Some (VStr ''Held'') \<longrightarrow>
     visibleTrace c (2 * c) (blinkStart (Some m)) = [True, False, True] \<and>
     toggles (visibleTrace c (2 * c) (blinkStart (Some m))) = 2 \<and>
     opacityTrace c (2 * c) (blinkStart (Some m)) f =
       [Some (VNum 1), Some (VNum 1), Some (VNum 0.2)]"
proof (intro impI, elim conjE)
  assume c: "0 < c"
    and p: "getPaintProperty m ''trains-layer'' ''circle-opacity'' = Some (ENum 1)"
    and h: "properties f ''status'' = Some (VStr ''Held'')"
  from p obtain paint where l: "layers m ''trains-layer'' = Some paint"
    and o: "paint ''circle-opacity'' = Some (ENum 1)"
    by (auto simp add: getPaintProperty_def split: option.splits)
  show "visibleTrace c (2 * c) (blinkStart (Some m)) = [True, False, True] \<and>
     toggles (visibleTrace c (2 * c) (blinkStart (Some m))) = 2 \<and>
     opacityTrace c (2 * c) (blinkStart (Some m)) f =
       [Some (VNum 1), Some (VNum 1), Some (VNum 0.2)]"
    by (simp add: visibleTrace_def opacityTrace_def blinkStates_two [OF c l] circleOpacity_def
        getPaintProperty_def l o h evalExpr_opacityExpr)
qed

text \<open>C7, the amended statement on the freshly loaded map, at the cadence of 500 ms.\<close>

theorem C7_blink_two_periods_witness:
  "visibleTrace 500 1000 (blinkStart (Some (onLoad newMap))) = [True, False, True] \<and>
   opacityTrace 500 1000 (blinkStart (Some (onLoad newMap))) (toFeature heldTrain) =
       [Some (VNum 1), Some (VNum 1), Some (VNum 0.2)]"
  using C7_blink_two_periods [of 500 "onLoad newMap" "toFeature heldTrain"]
    loaded_opacity held_status
  by simp

text \<open>
  C7, as stated, fails: on the freshly loaded map, 1000 ms after the start of the 500 ms
  timer, the opacity of a held train has not gone 1, 0.2, 1, and it has not changed twice.
\<close>

theorem C7_opacity_not_on_off_on:
  "opacityTrace 500 1000 (blinkStart (Some (onLoad newMap))) (toFeature heldTrain)
     \<noteq> [Some (VNum 1), Some (VNum 0.2), Some (VNum 1)] \<and>
   toggles (opacityTrace 500 1000 (blinkStart (Some (onLoad newMap))) (toFeature heldTrain))
     \<noteq> 2"
proof -
  have t: "opacityTrace 500 1000 (blinkStart (Some (onLoad newMap))) (toFeature heldTrain) =
       [Some (VNum 1), Some (VNum 1), Some (VNum 0.2)]"
    using blinkStates_two [of 500 "onLoad newMap"] loaded_layer loaded_opacity held_status
    by (auto simp add: opacityTrace_def circleOpacity_def getPaintProperty_def
        evalExpr_opacityExpr)
  show ?thesis unfolding t by simp
qed

text \<open>
  C8, as amended: a train of the snapshot whose latitude or longitude is missing or is 0,
  that is, fails the truthiness test of the filter, contributes no feature: the
  features are those of the snapshot without it, every other train with both coordinates
  truthy still has its feature, and the update of the source goes through with that
  collection. Nothing else is tested: a train whose two coordinates are present and not 0
  is drawn whatever their values.
\<close>

theorem C8_falsy_coordinates_excluded:
  fixes t :: TrainData
  shows "current_lat t = None \<or> current_lat t = Some 0 \<or>
         current_lon t = None \<or> current_lon t = Some 0 \<longrightarrow>
    trainFeatures (xs @ t # ys) = trainFeatures (xs @ ys) \<and>
    (\<forall>u \<in> set (xs @ ys). truthy (current_lat u) \<and> truthy (current_lon u) \<longrightarrow>
        toFeature u \<in> set (trainFeatures (xs @ t # ys))) \<and>
    (sources m ''trains-source'' \<noteq> None \<longrightarrow>
       updateTrains (Some m) (xs @ t # ys) =
         Some (setData m ''trains-source'' (trainFeatures (xs @ ys))))"
proof
  assume "current_lat t = None \<or> current_lat t = Some 0 \<or>
          current_lon t = None \<or> current_lon t = Some 0"
  then have l: "\<not> (truthy (current_lat t) \<and> truthy (current_lon t))"
    by (auto simp add: truthy_iff)
  have e: "trainFeatures (xs @ t # ys) = trainFeatures (xs @ ys)"
    by (simp add: trainFeatures_append trainFeatures_Cons_falsy [OF l])
  have "\<forall>u \<in> set (xs @ ys). truthy (current_lat u) \<and> truthy (current_lon u) \<longrightarrow>
        toFeature u \<in> set (trainFeatures (xs @ ys))"
    by (auto simp add: trainFeatures_def)
  with e show "trainFeatures (xs @ t # ys) = trainFeatures (xs @ ys) \<and>
    (\<forall>u \<in> set (xs @ ys). truthy (current_lat u) \<and> truthy (current_lon u) \<longrightarrow>
        toFeature u \<in> set (trainFeatures (xs @ t # ys))) \<and>
    (sources m ''trains-source'' \<noteq> None \<longrightarrow>
       updateTrains (Some m) (xs @ t # ys) =
         Some (setData m ''trains-source'' (trainFeatures (xs @ ys))))"
    by (auto simp add: updateTrains_def)
qed

text \<open>
  C8, the amended statement on two snapshots of three trains: the middle one without a
  latitude, and the middle one at latitude 0.
\<close>

theorem C8_falsy_coordinates_excluded_witness:
  "current_lat lostTrain = None \<and> current_lat zeroTrain = Some 0 \<and>
   trainFeatures [heldTrain, lostTrain, runningTrain] =
     [toFeature heldTrain, toFeature runningTrain] \<and>
   trainFeatures [heldTrain, zeroTrain, runningTrain] =
     [toFeature heldTrain, toFeature runningTrain] \<and>
   updateTrains (Some (onLoad newMap)) [heldTrain, lostTrain, runningTrain] =
     Some (setData (onLoad newMap) ''trains-source''
       [toFeature heldTrain, toFeature runningTrain])"
proof -
  have l: "current_lat lostTrain = None" by (simp add: lostTrain_def)
  have z: "current_lat zeroTrain = Some 0" by (simp add: zeroTrain_def)
  have f: "trainFeatures [heldTrain, runningTrain] = [toFeature heldTrain, toFeature runningTrain]"
    by (simp add: trainFeatures_def truthy_def heldTrain_def runningTrain_def)
  from C8_falsy_coordinates_excluded [of lostTrain "[heldTrain]" "[runningTrain]" "onLoad newMap"]
    C8_falsy_coordinates_excluded [of zeroTrain "[heldTrain]" "[runningTrain]" "onLoad newMap"]
    l z f loaded_source
  show ?thesis by simp
qed

text \<open>
  C8, as stated, fails: a train reported at latitude 1000 lacks valid spatial coordinates,
  and it is not excluded: its feature is in the collection, between those of its
  neighbours.
\<close>

theorem C8_invalid_latitude_rendered:
  "\<not> spec_validCoordinates strayTrain \<and>
   trainFeatures [heldTrain, strayTrain, runningTrain] =
     [toFeature heldTrain, toFeature strayTrain, toFeature runningTrain] \<and>
   trainFeatures [heldTrain, strayTrain, runningTrain] \<noteq> trainFeatures [heldTrain, runningTrain]"
  by (simp add: spec_validCoordinates_def trainFeatures_def truthy_def heldTrain_def
      runningTrain_def strayTrain_def)

text \<open>
  C10: one run of the blink callback leaves every source's features as they were, keeps
  the same layers, and leaves every paint property other than \<open>circle-opacity\<close> of
  \<open>trains-layer\<close> as it was; when the layer exists, the opacity it installs draws
  every feature whose status is not \<open>Held\<close> at 1, and a held one at 1 or 0.2
  according to \<open>visible\<close>.
\<close>

theorem C10_blink_frame:
  "mapRef s = Some m \<longrightarrow>
    (\<exists>m'. mapRef (blinkTick s) = Some m' \<and> sources m' = sources m \<and>
       dom (layers m') = dom (layers m) \<and>
       (\<forall>l p. \<not> (l = ''trains-layer'' \<and> p = ''circle-opacity'') \<longrightarrow>
          getPaintProperty m' l p = getPaintProperty m l p) \<and>
       (layers m ''trains-layer'' \<noteq> None \<longrightarrow>
          (\<forall>f. circleOpacity m' f =
             Some (if properties f ''status'' = Some (VStr ''Held'')
                   then VNum (if visible s then 1 else 0.2) else VNum 1))))"
  by (auto simp add: blinkTick_def setPaintProperty_def getPaintProperty_def circleOpacity_def
      evalExpr_opacityExpr split: option.splits)

text \<open>C10 on the freshly loaded map, for a run of the callback with \<open>visible\<close> false.\<close>

theorem C10_blink_frame_witness:
  "\<exists>m'. mapRef (blinkTick \<lparr>visible = False, mapRef = Some (onLoad newMap)\<rparr>) = Some m' \<and>
     sources m' = sources (onLoad newMap) \<and>
     getPaintProperty m' ''trains-layer'' ''circle-radius'' = Some (ENum 8) \<and>
     circleOpacity m' (toFeature runningTrain) = Some (VNum 1) \<and>
     circleOpacity m' (toFeature heldTrain) = Some (VNum 0.2)"
proof -
  from C10_blink_frame [of "\<lparr>visible = False, mapRef = Some (onLoad newMap)\<rparr>" "onLoad newMap"]
  obtain m' where
    m: "mapRef (blinkTick \<lparr>visible = False, mapRef = Some (onLoad newMap)\<rparr>) = Some m'"
    and s: "sources m' = sources (onLoad newMap)"
    and p: "\<forall>l p. \<not> (l = ''trains-layer'' \<and> p = ''circle-opacity'') \<longrightarrow>
          getPaintProperty m' l p = getPaintProperty (onLoad newMap) l p"
    and o: "\<forall>f. circleOpacity m' f =
             Some (if properties f ''status'' = Some (VStr ''Held'')
                   then VNum (if False then 1 else 0.2) else VNum 1)"
    using loaded_layer by auto
  from p have "getPaintProperty m' ''trains-layer'' ''circle-radius'' = Some (ENum 8)"
    by (simp add: loaded_radius)
  with m s o show ?thesis
    by (simp add: running_status held_status)
qed

end
